theory Spec2Isabelle
  imports Main "HOL-Library.Sublist"
begin

section \<open>JavaScript values and promises\<close>

text \<open>
  The values an options object of \<^verbatim>\<open>runJestSimulation\<close> can hold (its index
  signature is \<^verbatim>\<open>[key: string]: any\<close>), and the three states an awaited promise
  can end in. \<open>Pending\<close> stands for a promise that never settles: the \<^verbatim>\<open>await\<close>
  on it never resumes.
\<close>

datatype jsval =
    JUndefined
  | JNull
  | JBool bool
  | JNum int
  | JStr string
  | JArr "string list"
  | JObj "(string \<times> jsval) list"

datatype ('e, 'a) promise = Fulfilled 'a | Rejected 'e | Pending


section \<open>The Jest subprocess helper: \<^verbatim>\<open>runJestSimulation\<close>\<close>

text \<open>
  \<^verbatim>\<open>JestSimulationOptions\<close> is an object with an optional \<^verbatim>\<open>args\<close> array and any
  other keys; it is a map from property names to values. A property that is absent and
  a property holding \<^verbatim>\<open>undefined\<close> are different maps, as they are different objects
  for the spread operator.
\<close>

type_synonym JestSimulationOptions = "string \<rightharpoonup> jsval"

text \<open>
  The errors a call can end in: the module is not installed, a value is not iterable,
  the invoker refuses its options, or the invoker reports that the subprocess ran and
  ended with an exit status other than zero.
\<close>

datatype js_error =
    MODULE_NOT_FOUND string
  | TypeError string
  | InvalidOptions string
  | NonZeroExit nat

text \<open>
  The destructuring \<^verbatim>\<open>const { args = [], ...execaOptions } = options\<close>. The default
  \<^verbatim>\<open>[]\<close> applies when the property is absent or \<^verbatim>\<open>undefined\<close>; the rest
  pattern collects every own property but \<^verbatim>\<open>args\<close>.
\<close>

definition args_binding :: "JestSimulationOptions \<Rightarrow> jsval" where
  "args_binding options =
     (case options ''args'' of
        None \<Rightarrow> JArr []
      | Some JUndefined \<Rightarrow> JArr []
      | Some v \<Rightarrow> v)"

definition execaOptions_binding :: "JestSimulationOptions \<Rightarrow> JestSimulationOptions" where
  "execaOptions_binding options = options |` (- {''args''})"

text \<open>
  The array spread \<^verbatim>\<open>...args\<close> iterates its operand: an array gives its elements, a
  string its characters, and a value that is not iterable throws a TypeError.
\<close>

fun spread_iterable :: "jsval \<Rightarrow> js_error + string list" where
  "spread_iterable (JArr xs) = Inr xs"
| "spread_iterable (JStr s) = Inr (map (\<lambda>c. [c]) s)"
| "spread_iterable v = Inl (TypeError ''args is not iterable'')"

text \<open>The array literal \<^verbatim>\<open>[jestBin, testFile, '--no-color', ...args]\<close>.\<close>

definition jest_argv :: "string \<Rightarrow> string \<Rightarrow> string list \<Rightarrow> string list" where
  "jest_argv jestBin testFile args = [jestBin, testFile, ''--no-color''] @ args"

text \<open>
  The object literal
  \<^verbatim>\<open>{ reject: false, stdout: 'pipe', stderr: 'pipe', ...execaOptions }\<close>:
  later properties overwrite earlier ones, so the spread wins over the three defaults.
\<close>

definition execa_defaults :: JestSimulationOptions where
  "execa_defaults =
     [''reject'' \<mapsto> JBool False, ''stdout'' \<mapsto> JStr ''pipe'', ''stderr'' \<mapsto> JStr ''pipe'']"

definition execa_options :: "JestSimulationOptions \<Rightarrow> JestSimulationOptions" where
  "execa_options execaOptions = execa_defaults ++ execaOptions"

text \<open>
  The two things the function reaches outside itself for: module resolution
  (\<^verbatim>\<open>require.resolve\<close>, which throws when the module is not installed) and the
  process invoker \<^verbatim>\<open>execa(file, args, options)\<close>, a third-party package. Both are
  parameters of the model; \<open>'r\<close> is whatever the invoker's promise fulfils with.
\<close>

record 'r jest_env =
  require_resolve :: "string \<Rightarrow> js_error + string"
  execa :: "string \<Rightarrow> string list \<Rightarrow> JestSimulationOptions \<Rightarrow> (js_error, 'r) promise"

text \<open>
  \<^verbatim>\<open>runJestSimulation(testFile, options = {})\<close>. An exception inside the async
  function rejects its promise; \<^verbatim>\<open>return result\<close> fulfils it with what the invoker's
  promise fulfilled with.
\<close>

definition runJestSimulation ::
  "'r jest_env \<Rightarrow> string \<Rightarrow> JestSimulationOptions \<Rightarrow> (js_error, 'r) promise" where
  "runJestSimulation env testFile options =
     (case require_resolve env ''jest/bin/jest'' of
        Inl e \<Rightarrow> Rejected e
      | Inr jestBin \<Rightarrow>
          (let args = args_binding options;
               execaOptions = execaOptions_binding options
           in case spread_iterable args of
                Inl e \<Rightarrow> Rejected e
              | Inr args' \<Rightarrow>
                  (case execa env ''node'' (jest_argv jestBin testFile args')
                          (execa_options execaOptions) of
                     Fulfilled result \<Rightarrow> Fulfilled result
                   | Rejected e \<Rightarrow> Rejected e
                   | Pending \<Rightarrow> Pending)))"

text \<open>
  The default parameter \<^verbatim>\<open>options = {}\<close>: a call without options, or with
  \<^verbatim>\<open>undefined\<close>, runs with the empty object.
\<close>

definition runJestSimulation_default :: "'r jest_env \<Rightarrow> string \<Rightarrow> (js_error, 'r) promise" where
  "runJestSimulation_default env testFile = runJestSimulation env testFile Map.empty"


text \<open>
  Two invokers to run the model on. \<open>recording_execa\<close> fulfils with the call it was
  handed, so that the command line and the options can be read off the result.
  \<open>exiting_execa status\<close> is execa (version 5, the last that \<^verbatim>\<open>require\<close> loads as a
  function) on a subprocess that starts and ends with the exit status \<open>status\<close>, which
  the operating system keeps below 256. Of the options it reads \<^verbatim>\<open>stdio\<close>, which
  execa refuses next to a defined \<^verbatim>\<open>stdin\<close>, \<^verbatim>\<open>stdout\<close> or \<^verbatim>\<open>stderr\<close>,
  and \<^verbatim>\<open>reject\<close>, true when absent and read for its truth value otherwise: the
  promise rejects when the status is not zero and \<^verbatim>\<open>reject\<close> holds, and fulfils
  with the exit code otherwise. The text of the streams is not part of this result.
\<close>

definition recording_execa ::
  "string \<Rightarrow> string list \<Rightarrow> JestSimulationOptions
     \<Rightarrow> (js_error, string \<times> string list \<times> JestSimulationOptions) promise" where
  "recording_execa file argv opts = Fulfilled (file, argv, opts)"





definition jest_installed :: "string \<Rightarrow> js_error + string" where
  "jest_installed m = Inr (''/node_modules/'' @ m @ ''.js'')"

section \<open>Conversation messages and generators\<close>

text \<open>
  The message types of \<^verbatim>\<open>BaseConversationGenerator.ts\<close> are object types, and an
  object type of TypeScript admits every object that has the declared properties with
  values of the declared types, whatever other properties the object has. A message is
  therefore an object, a map from property names to values, and each declared type is
  the set of the objects it admits:
  \<^verbatim>\<open>{ role: 'assistant', content: string }\<close> for the assistant, and for the user the
  union of \<^verbatim>\<open>{ role: 'user', content: string }\<close> and
  \<^verbatim>\<open>{ role: 'user', stopTokenReturned: true }\<close>.
\<close>

type_synonym js_object = "string \<rightharpoonup> jsval"

fun is_string :: "jsval option \<Rightarrow> bool" where
  "is_string (Some (JStr s)) = True"
| "is_string v = False"

definition is_AssistantConversationMessage :: "js_object \<Rightarrow> bool" where
  "is_AssistantConversationMessage v =
     (v ''role'' = Some (JStr ''assistant'') \<and> is_string (v ''content''))"

definition is_user_content :: "js_object \<Rightarrow> bool" where
  "is_user_content v = (v ''role'' = Some (JStr ''user'') \<and> is_string (v ''content''))"

definition is_user_stop :: "js_object \<Rightarrow> bool" where
  "is_user_stop v =
     (v ''role'' = Some (JStr ''user'') \<and> v ''stopTokenReturned'' = Some (JBool True))"

definition is_UserConversationMessage :: "js_object \<Rightarrow> bool" where
  "is_UserConversationMessage v = (is_user_content v \<or> is_user_stop v)"

definition is_ConversationMessage :: "js_object \<Rightarrow> bool" where
  "is_ConversationMessage v =
     (is_AssistantConversationMessage v \<or> is_UserConversationMessage v)"

text \<open>The number of the three shapes that an object matches.\<close>

definition shapes_matched :: "js_object \<Rightarrow> nat" where
  "shapes_matched v =
     length (filter (\<lambda>shape. shape v)
       [is_AssistantConversationMessage, is_user_content, is_user_stop])"

text \<open>A user message that holds a content string and the stop flag at once.\<close>

definition content_and_stop :: js_object where
  "content_and_stop =
     [''role'' \<mapsto> JStr ''user'', ''content'' \<mapsto> JStr ''bye'',
      ''stopTokenReturned'' \<mapsto> JBool True]"

text \<open>
  The messages that hold the properties of one declared member and no other: the tagged
  union of section 3 of the specification, with one constructor for each member.
  \<open>object_of\<close> gives the object that such a message is.
\<close>

datatype AssistantConversationMessage = AssistantContent string

datatype UserConversationMessage = UserContent string | UserStopTokenReturned

datatype ConversationMessage =
    Assistant AssistantConversationMessage
  | User UserConversationMessage

fun object_of :: "ConversationMessage \<Rightarrow> js_object" where
  "object_of (Assistant (AssistantContent c)) =
     [''role'' \<mapsto> JStr ''assistant'', ''content'' \<mapsto> JStr c]"
| "object_of (User (UserContent c)) =
     [''role'' \<mapsto> JStr ''user'', ''content'' \<mapsto> JStr c]"
| "object_of (User UserStopTokenReturned) =
     [''role'' \<mapsto> JStr ''user'', ''stopTokenReturned'' \<mapsto> JBool True]"

text \<open>
  The abstract class \<^verbatim>\<open>AgentConversationGenerator\<close>: an implementation supplies the
  two methods, over a state \<open>'g\<close> of its own. \<^verbatim>\<open>generateResponse\<close> returns a promise
  of a message.
\<close>

datatype generation_error = GenerationError string

record 'g AgentConversationGenerator =
  initialize :: "string option \<Rightarrow> 'g \<Rightarrow> 'g"
  generateResponse ::
    "ConversationMessage \<Rightarrow> 'g \<Rightarrow> (generation_error, ConversationMessage) promise \<times> 'g"

section \<open>The turn engine\<close>

text \<open>
  Modelled from the spec: the deterministic generator, \<^verbatim>\<open>SimulationAgent\<close> and
  \<^verbatim>\<open>SimulationAgentRunner\<close>. The modules that define them
  (\<^verbatim>\<open>./agent/SimulationAgent\<close>, \<^verbatim>\<open>./SimulationAgentRunner\<close> and the
  generators beside \<^verbatim>\<open>BaseConversationGenerator.ts\<close>) are imported or named by the
  code but their text is missing, so everything in this section follows sections 3, 4
  and 7 of the specification.

  The deterministic generator is "a pure function of turn index": its state counts the
  responses produced so far, \<^verbatim>\<open>initialize\<close> resets the count, and the response of
  turn \<open>i\<close> is \<open>script i\<close>, whatever the input.
\<close>

definition DeterministicConversationGenerator ::
  "(nat \<Rightarrow> ConversationMessage) \<Rightarrow> nat AgentConversationGenerator" where
  "DeterministicConversationGenerator script =
     \<lparr>initialize = (\<lambda>systemPrompt i. 0),
      generateResponse = (\<lambda>input i. (Fulfilled (script (Suc i)), Suc i))\<rparr>"

text \<open>
  Modelled from the spec: \<^verbatim>\<open>AgentConstructorArgs\<close> (section 3): role, task, the
  generator and \<^verbatim>\<open>maxTurns\<close>. The specification does not say which message the
  generator receives on the first turn, so that message is a field here.
\<close>

record 'g AgentConstructorArgs =
  args_role :: string
  args_task :: string
  args_generator :: "'g AgentConversationGenerator"
  args_generator_state :: 'g
  args_firstInput :: ConversationMessage
  args_maxTurns :: int

text \<open>
  Modelled from the spec: the per-turn snapshot, the lifecycle events and the agent
  (sections 3 and 4.2). The event channel is the sequence of events emitted so far:
  events are emitted synchronously, in order, to whoever observes.
\<close>

record SimulationState =
  currentTurn :: nat
  latestMessage :: ConversationMessage

datatype event =
    turnStart SimulationState
  | turnEnd SimulationState
  | conversationEnd string nat

datatype phase = Idle | Running | Terminal

record 'g SimulationAgent =
  generator :: "'g AgentConversationGenerator"
  generator_state :: 'g
  maxTurns :: int
  turn :: nat
  latest :: ConversationMessage
  phase :: phase
  events :: "event list"

definition emit :: "event \<Rightarrow> 'g SimulationAgent \<Rightarrow> 'g SimulationAgent" where
  "emit ev a = a\<lparr>events := events a @ [ev]\<rparr>"

text \<open>
  Modelled from the spec: \<^verbatim>\<open>runTurn()\<close> (section 4.2). A terminal agent does
  nothing and reports the terminal state. Otherwise the turn counter advances (it is
  1-based), \<^verbatim>\<open>turnStart\<close> is emitted, the generator is asked for the next message,
  \<^verbatim>\<open>turnEnd\<close> is emitted, and the terminal conditions are checked in their order:
  first the stop sentinel, then the turn counter against \<^verbatim>\<open>maxTurns\<close>. A rejection
  of the generator rejects the turn, with no further event (section 7).
\<close>

definition runTurn ::
  "'g SimulationAgent \<Rightarrow> (generation_error, bool) promise \<times> 'g SimulationAgent" where
  "runTurn a =
     (if phase a = Terminal then (Fulfilled True, a)
      else
        (let n = Suc (turn a);
             a1 = emit (turnStart \<lparr>currentTurn = n, latestMessage = latest a\<rparr>)
                    (a\<lparr>phase := Running, turn := n\<rparr>)
         in case generateResponse (generator a) (latest a) (generator_state a) of
              (Rejected e, g) \<Rightarrow> (Rejected e, a1\<lparr>generator_state := g\<rparr>)
            | (Pending, g) \<Rightarrow> (Pending, a1\<lparr>generator_state := g\<rparr>)
            | (Fulfilled m, g) \<Rightarrow>
                (let a2 = emit (turnEnd \<lparr>currentTurn = n, latestMessage = m\<rparr>)
                            (a1\<lparr>generator_state := g, latest := m\<rparr>)
                 in if m = User UserStopTokenReturned
                    then (Fulfilled True,
                          emit (conversationEnd ''stop-token'' n) (a2\<lparr>phase := Terminal\<rparr>))
                    else if maxTurns a \<le> int n
                    then (Fulfilled True,
                          emit (conversationEnd ''max-turns'' n) (a2\<lparr>phase := Terminal\<rparr>))
                    else (Fulfilled False, a2))))"

text \<open>
  Modelled from the spec: the runner (section 4.3). The constructor builds the agent
  and performs no turn; a \<^verbatim>\<open>maxTurns\<close> that is not positive fails at construction
  (section 7). \<^verbatim>\<open>runAllTurns()\<close> advances the agent turn by turn until a turn
  reports the terminal condition, and passes a rejection on to its caller.
\<close>

datatype configuration_error = InvalidMaxTurns int

record 'g SimulationAgentRunner =
  owned_agent :: "'g SimulationAgent"

definition newSimulationAgentRunner ::
  "'g AgentConstructorArgs \<Rightarrow> configuration_error + 'g SimulationAgentRunner" where
  "newSimulationAgentRunner args =
     (if args_maxTurns args \<le> 0 then Inl (InvalidMaxTurns (args_maxTurns args))
      else Inr \<lparr>owned_agent =
        \<lparr>generator = args_generator args,
         generator_state = initialize (args_generator args) None (args_generator_state args),
         maxTurns = args_maxTurns args,
         turn = 0,
         latest = args_firstInput args,
         phase = Idle,
         events = []\<rparr>\<rparr>)"

function runAllTurns_loop ::
  "'g SimulationAgent \<Rightarrow> (generation_error, unit) promise \<times> 'g SimulationAgent" where
  "runAllTurns_loop a =
     (case runTurn a of
        (Fulfilled terminal, a') \<Rightarrow>
          (if terminal then (Fulfilled (), a') else runAllTurns_loop a')
      | (Rejected e, a') \<Rightarrow> (Rejected e, a')
      | (Pending, a') \<Rightarrow> (Pending, a'))"
  by pat_completeness auto
termination
proof (relation "measure (\<lambda>a. nat (maxTurns a - int (turn a)))")
  show "wf (measure (\<lambda>a. nat (maxTurns a - int (turn a))))"
    by simp
next
  fix a :: "'g SimulationAgent" and x1 a' terminal
  assume "(x1, a') = runTurn a" and "x1 = Fulfilled terminal" and "\<not> terminal"
  then have "runTurn a = (Fulfilled False, a')"
    by simp
  then have "turn a' = Suc (turn a) \<and> maxTurns a' = maxTurns a \<and> int (Suc (turn a)) < maxTurns a"
    by (auto simp add: runTurn_def Let_def emit_def
        split: if_splits prod.splits promise.splits)
  then show "(a', a) \<in> measure (\<lambda>a. nat (maxTurns a - int (turn a)))"
    by simp
qed

declare runAllTurns_loop.simps [simp del]

definition runAllTurns ::
  "'g SimulationAgentRunner
     \<Rightarrow> (generation_error, unit) promise \<times> 'g SimulationAgentRunner" where
  "runAllTurns r = (case runAllTurns_loop (owned_agent r) of (p, a) \<Rightarrow> (p, r\<lparr>owned_agent := a\<rparr>))"

text \<open>What an observer attached before the run has seen of each kind of event.\<close>

fun turnStarts :: "event list \<Rightarrow> nat list" where
  "turnStarts [] = []"
| "turnStarts (turnStart s # es) = currentTurn s # turnStarts es"
| "turnStarts (e # es) = turnStarts es"

fun turnEnds :: "event list \<Rightarrow> nat list" where
  "turnEnds [] = []"
| "turnEnds (turnEnd s # es) = currentTurn s # turnEnds es"
| "turnEnds (e # es) = turnEnds es"

fun conversationEnds :: "event list \<Rightarrow> (string \<times> nat) list" where
  "conversationEnds [] = []"
| "conversationEnds (conversationEnd reason n # es) = (reason, n) # conversationEnds es"
| "conversationEnds (e # es) = conversationEnds es"

text \<open>
  The events of a run that ends at turn \<open>n\<close> for the given reason, when the first
  input is \<open>first\<close> and turn \<open>i\<close> produces \<open>script i\<close>: a \<^verbatim>\<open>turnStart\<close> and a
  \<^verbatim>\<open>turnEnd\<close> for each turn, in turn order, and one \<^verbatim>\<open>conversationEnd\<close>.
\<close>

definition message_after :: "ConversationMessage \<Rightarrow> (nat \<Rightarrow> ConversationMessage) \<Rightarrow> nat \<Rightarrow> ConversationMessage" where
  "message_after first script i = (if i = 0 then first else script i)"

definition turn_events :: "ConversationMessage \<Rightarrow> (nat \<Rightarrow> ConversationMessage) \<Rightarrow> nat \<Rightarrow> event list" where
  "turn_events first script i =
     [turnStart \<lparr>currentTurn = i, latestMessage = message_after first script (i - 1)\<rparr>,
      turnEnd \<lparr>currentTurn = i, latestMessage = message_after first script i\<rparr>]"

definition run_events ::
  "ConversationMessage \<Rightarrow> (nat \<Rightarrow> ConversationMessage) \<Rightarrow> nat \<Rightarrow> string \<Rightarrow> event list" where
  "run_events first script n reason =
     concat (map (turn_events first script) [1..<Suc n]) @ [conversationEnd reason n]"

definition stop_reason :: "(nat \<Rightarrow> ConversationMessage) \<Rightarrow> nat \<Rightarrow> string" where
  "stop_reason script k =
     (if script k = User UserStopTokenReturned then ''stop-token'' else ''max-turns'')"

text \<open>
  Two scripted runs, after the scenarios of the specification's section 8: three turns
  of content with \<open>maxTurns = 3\<close>, and the stop sentinel on turn 2 with \<open>maxTurns = 5\<close>.
\<close>

definition content_script :: "nat \<Rightarrow> ConversationMessage" where
  "content_script i = Assistant (AssistantContent ''ok'')"

definition stop_at_2_script :: "nat \<Rightarrow> ConversationMessage" where
  "stop_at_2_script i = (if i = 2 then User UserStopTokenReturned else User (UserContent ''go on''))"

definition scripted_args :: "(nat \<Rightarrow> ConversationMessage) \<Rightarrow> int \<Rightarrow> nat AgentConstructorArgs" where
  "scripted_args script n =
     \<lparr>args_role = ''test'', args_task = ''example'',
      args_generator = DeterministicConversationGenerator script,
      args_generator_state = 0,
      args_firstInput = Assistant (AssistantContent ''hello''),
      args_maxTurns = n\<rparr>"

section \<open>The Jest binding: \<^verbatim>\<open>simulationTest\<close>\<close>

text \<open>
  The test body creates an array (\<^verbatim>\<open>logs\<close>) that the setup callback and the
  handlers it installs share by reference, so arrays live in a store: the address of an
  array is its index in \<open>arrays\<close>, and a new array takes the next index. \<open>others\<close> is
  the rest of the heap: the runner, its agent, the handlers.
\<close>

type_synonym addr = nat

record 'x store =
  arrays :: "string list list"
  others :: 'x

definition new_array :: "'x store \<Rightarrow> addr \<times> 'x store" where
  "new_array s = (length (arrays s), s\<lparr>arrays := arrays s @ [[]]\<rparr>)"

definition array_at :: "'x store \<Rightarrow> addr \<Rightarrow> string list option" where
  "array_at s l = (if l < length (arrays s) then Some (arrays s ! l) else None)"

text \<open>\<^verbatim>\<open>interface SimulationContext { agent: SimulationAgent; logs: string[] }\<close>\<close>

record 'a SimulationContext =
  agent :: 'a
  logs :: addr

text \<open>
  What a call of a function of type \<^verbatim>\<open>void | Promise<void>\<close> can do: throw, return
  nothing, or return a promise. \<^verbatim>\<open>await\<close> of the outcome inside an async function:
  a throw rejects the function's promise, a value that is not a promise lets it go on,
  and a promise is waited for.
\<close>

datatype 'e returned = Throws 'e | ReturnsVoid | ReturnsPromise "('e, unit) promise"

fun await :: "'e returned \<Rightarrow> ('e, unit) promise" where
  "await (Throws e) = Rejected e"
| "await ReturnsVoid = Fulfilled ()"
| "await (ReturnsPromise p) = p"

text \<open>
  \<^verbatim>\<open>type SimulationFn = (context: SimulationContext) => void | Promise<void>\<close>. The
  callback works on the store; the store it returns is the one found when the awaited
  outcome is known.
\<close>

type_synonym ('a, 'e, 'x) SimulationFn =
  "'a SimulationContext \<Rightarrow> 'x store \<Rightarrow> 'e returned \<times> 'x store"

text \<open>
  The class \<^verbatim>\<open>SimulationAgentRunner\<close> is imported, so the three members the body
  uses are parameters: the constructor, \<^verbatim>\<open>getAgent()\<close> and \<^verbatim>\<open>runAllTurns()\<close>,
  each free to throw and to change the store. \<open>'args\<close> stands for
  \<^verbatim>\<open>AgentConstructorArgs\<close>, \<open>'r\<close> for runners, \<open>'a\<close> for agents.
\<close>

record ('args, 'r, 'a, 'e, 'x) SimulationAgentRunner_class =
  class_new :: "'args \<Rightarrow> 'x store \<Rightarrow> ('e + 'r) \<times> 'x store"
  class_getAgent :: "'r \<Rightarrow> 'x store \<Rightarrow> ('e + 'a) \<times> 'x store"
  class_runAllTurns :: "'r \<Rightarrow> 'x store \<Rightarrow> 'e returned \<times> 'x store"

text \<open>
  The run of a test body is observed through the calls it makes on its collaborators:
  each call is recorded with the store it started from, what it returned and the store
  it left.
\<close>

datatype ('args, 'r, 'a) call =
    NewSimulationAgentRunner 'args
  | GetAgent 'r
  | SetupFn "'a SimulationContext"
  | RunAllTurns 'r

datatype ('r, 'a, 'e) outcome =
    Runner 'r
  | Agent 'a
  | Thrown 'e
  | Awaited "('e, unit) promise"

record ('args, 'r, 'a, 'e, 'x) entry =
  called :: "('args, 'r, 'a) call"
  before :: "'x store"
  outcome :: "('r, 'a, 'e) outcome"
  after :: "'x store"

record ('args, 'r, 'a, 'e, 'x) world =
  trace :: "('args, 'r, 'a, 'e, 'x) entry list"
  store :: "'x store"

definition invoke ::
  "('args, 'r, 'a) call \<Rightarrow> ('res \<Rightarrow> ('r, 'a, 'e) outcome) \<Rightarrow> ('x store \<Rightarrow> 'res \<times> 'x store)
     \<Rightarrow> ('args, 'r, 'a, 'e, 'x) world \<Rightarrow> 'res \<times> ('args, 'r, 'a, 'e, 'x) world" where
  "invoke c observe f w =
     (case f (store w) of
        (res, s') \<Rightarrow>
          (res,
           \<lparr>trace = trace w @ [\<lparr>called = c, before = store w, outcome = observe res, after = s'\<rparr>],
            store = s'\<rparr>))"

definition observe_runner :: "'e + 'r \<Rightarrow> ('r, 'a, 'e) outcome" where
  "observe_runner res = (case res of Inl e \<Rightarrow> Thrown e | Inr r \<Rightarrow> Runner r)"

definition observe_agent :: "'e + 'a \<Rightarrow> ('r, 'a, 'e) outcome" where
  "observe_agent res = (case res of Inl e \<Rightarrow> Thrown e | Inr a \<Rightarrow> Agent a)"

definition observe_awaited :: "'e returned \<Rightarrow> ('r, 'a, 'e) outcome" where
  "observe_awaited res = Awaited (await res)"

text \<open>
  The async function that \<^verbatim>\<open>simulationTest\<close> hands to Jest (lines 46 to 62), run
  from the store \<open>s0\<close>: it gives the state of its promise and the world it leaves. An
  \<^verbatim>\<open>await\<close> on a promise that never settles leaves the body pending at that line.
  (The local names \<open>logs'\<close> and \<open>agent'\<close> are primed: the plain names are the fields
  of the context.)
\<close>

definition simulationTest_body ::
  "('args, 'r, 'a, 'e, 'x) SimulationAgentRunner_class \<Rightarrow> 'args \<Rightarrow> ('a, 'e, 'x) SimulationFn
     \<Rightarrow> 'x store \<Rightarrow> ('e, unit) promise \<times> ('args, 'r, 'a, 'e, 'x) world" where
  "simulationTest_body SimulationAgentRunner agentArgs fn s0 =
     (case new_array s0 of
        (logs', s1) \<Rightarrow>
     (case invoke (NewSimulationAgentRunner agentArgs) observe_runner
             (class_new SimulationAgentRunner agentArgs) \<lparr>trace = [], store = s1\<rparr> of
        (Inl e, w2) \<Rightarrow> (Rejected e, w2)
      | (Inr runner, w2) \<Rightarrow>
     (case invoke (GetAgent runner) observe_agent
             (class_getAgent SimulationAgentRunner runner) w2 of
        (Inl e, w3) \<Rightarrow> (Rejected e, w3)
      | (Inr agent', w3) \<Rightarrow>
     (let context = \<lparr>agent = agent', logs = logs'\<rparr> in
      case invoke (SetupFn context) observe_awaited (fn context) w3 of
        (setup, w4) \<Rightarrow>
     (case await setup of
        Rejected e \<Rightarrow> (Rejected e, w4)
      | Pending \<Rightarrow> (Pending, w4)
      | Fulfilled u \<Rightarrow>
     (case invoke (RunAllTurns runner) observe_awaited
             (class_runAllTurns SimulationAgentRunner runner) w4 of
        (run, w5) \<Rightarrow>
     (case await run of
        Rejected e \<Rightarrow> (Rejected e, w5)
      | Pending \<Rightarrow> (Pending, w5)
      | Fulfilled u \<Rightarrow> (Fulfilled (), w5))))))))"

text \<open>
  \<^verbatim>\<open>simulationTest(name, agentArgs, fn)\<close> itself runs nothing: it registers the body
  with Jest under the name (\<^verbatim>\<open>test(name, async () => ...)\<close>) and returns.
\<close>

type_synonym ('args, 'r, 'a, 'e, 'x) jest_test =
  "string \<times> ('x store \<Rightarrow> ('e, unit) promise \<times> ('args, 'r, 'a, 'e, 'x) world)"

definition simulationTest ::
  "('args, 'r, 'a, 'e, 'x) SimulationAgentRunner_class \<Rightarrow> string \<Rightarrow> 'args
     \<Rightarrow> ('a, 'e, 'x) SimulationFn \<Rightarrow> ('args, 'r, 'a, 'e, 'x) jest_test list
     \<Rightarrow> ('args, 'r, 'a, 'e, 'x) jest_test list" where
  "simulationTest SimulationAgentRunner name agentArgs fn tests =
     tests @ [(name, simulationTest_body SimulationAgentRunner agentArgs fn)]"

text \<open>
  Reading a trace: the calls in order, whether a call completed (it returned, and what
  it returned was not a promise that rejects or stays pending), and whether the stores
  of the entries are linked, each call starting from the store the one before it left.
\<close>

fun completed :: "('r, 'a, 'e) outcome \<Rightarrow> bool" where
  "completed (Runner r) = True"
| "completed (Agent a) = True"
| "completed (Thrown e) = False"
| "completed (Awaited p) = (p = Fulfilled ())"

fun linked :: "'x store \<Rightarrow> ('args, 'r, 'a, 'e, 'x) entry list \<Rightarrow> 'x store \<Rightarrow> bool" where
  "linked s [] t = (s = t)"
| "linked s (e # es) t = (before e = s \<and> linked (after e) es t)"

fun is_RunAllTurns :: "('args, 'r, 'a) call \<Rightarrow> bool" where
  "is_RunAllTurns (RunAllTurns r) = True"
| "is_RunAllTurns c = False"

fun is_NewSimulationAgentRunner :: "('args, 'r, 'a) call \<Rightarrow> bool" where
  "is_NewSimulationAgentRunner (NewSimulationAgentRunner args) = True"
| "is_NewSimulationAgentRunner c = False"

text \<open>
  A collaborator leaves the array at \<open>l\<close> alone when no call of it changes what is
  stored there.
\<close>

definition leaves_array :: "addr \<Rightarrow> ('x store \<Rightarrow> 'res \<times> 'x store) \<Rightarrow> bool" where
  "leaves_array l f = (\<forall>s. array_at (snd (f s)) l = array_at s l)"

text \<open>
  A small runner class and two setup callbacks to run the body on. The runner's state
  is the number of turns run so far; \<^verbatim>\<open>runAllTurns()\<close> runs the three turns, and each
  turn fires the handler that the callback installed, which pushes a line onto the
  array at address 0 (the first array of an empty store).
\<close>

definition push :: "addr \<Rightarrow> string \<Rightarrow> nat store \<Rightarrow> nat store" where
  "push l line s =
     (if l < length (arrays s) then s\<lparr>arrays := (arrays s)[l := arrays s ! l @ [line]]\<rparr> else s)"

definition counting_runner :: "(nat, nat, nat, string, nat) SimulationAgentRunner_class" where
  "counting_runner =
     \<lparr>class_new = (\<lambda>maxTurns s. (Inr 1, s\<lparr>others := 0\<rparr>)),
      class_getAgent = (\<lambda>runner s. (Inr 2, s)),
      class_runAllTurns = (\<lambda>runner s.
         (ReturnsPromise (Fulfilled ()),
          (push 0 ''Turn 3'' (push 0 ''Turn 2'' (push 0 ''Turn 1'' s)))\<lparr>others := 3\<rparr>))\<rparr>"

definition listening_fn :: "(nat, string, nat) SimulationFn" where
  "listening_fn context s = (ReturnsPromise (Fulfilled ()), push (logs context) ''ready'' s)"

definition failing_fn :: "(nat, string, nat) SimulationFn" where
  "failing_fn context s = (ReturnsPromise (Rejected ''setup failed''), s)"

definition empty_store :: "nat store" where
  "empty_store = \<lparr>arrays = [], others = 0\<rparr>"

text \<open>The three things a run of the body leaves: its promise, its trace, its store.\<close>

definition test_promise ::
  "('args, 'r, 'a, 'e, 'x) SimulationAgentRunner_class \<Rightarrow> 'args \<Rightarrow> ('a, 'e, 'x) SimulationFn
     \<Rightarrow> 'x store \<Rightarrow> ('e, unit) promise" where
  "test_promise SimulationAgentRunner agentArgs fn s0 =
     fst (simulationTest_body SimulationAgentRunner agentArgs fn s0)"

definition test_trace ::
  "('args, 'r, 'a, 'e, 'x) SimulationAgentRunner_class \<Rightarrow> 'args \<Rightarrow> ('a, 'e, 'x) SimulationFn
     \<Rightarrow> 'x store \<Rightarrow> ('args, 'r, 'a, 'e, 'x) entry list" where
  "test_trace SimulationAgentRunner agentArgs fn s0 =
     trace (snd (simulationTest_body SimulationAgentRunner agentArgs fn s0))"

definition test_store ::
  "('args, 'r, 'a, 'e, 'x) SimulationAgentRunner_class \<Rightarrow> 'args \<Rightarrow> ('a, 'e, 'x) SimulationFn
     \<Rightarrow> 'x store \<Rightarrow> 'x store" where
  "test_store SimulationAgentRunner agentArgs fn s0 =
     store (snd (simulationTest_body SimulationAgentRunner agentArgs fn s0))"

section \<open>Properties of conversation messages\<close>

lemma is_string_iff: "is_string v = (\<exists>s. v = Some (JStr s))"
  by (cases v rule: is_string.cases) simp_all

text \<open>
  A message that holds the properties of a single declared member is of the declared
  type, matches one shape only and holds one of the two properties only.
\<close>

lemma object_of_ConversationMessage:
  "is_ConversationMessage (object_of m) \<and> shapes_matched (object_of m) = 1
   \<and> (object_of m ''content'' = None) \<noteq> (object_of m ''stopTokenReturned'' = None)"
proof (cases m)
  case (Assistant x)
  then show ?thesis
    by (cases x)
      (simp add: is_ConversationMessage_def is_AssistantConversationMessage_def
        is_UserConversationMessage_def is_user_content_def is_user_stop_def shapes_matched_def)
next
  case (User y)
  then show ?thesis
    by (cases y)
      (simp_all add: is_ConversationMessage_def is_AssistantConversationMessage_def
        is_UserConversationMessage_def is_user_content_def is_user_stop_def shapes_matched_def)
qed

text \<open>
  C4, as stated, fails: the two user members share the role, so the object that holds
  role "user", a content string and \<^verbatim>\<open>stopTokenReturned: true\<close> is of type
  \<^verbatim>\<open>ConversationMessage\<close>; it matches two of the three shapes and carries both
  properties.
\<close>

theorem ConversationMessage_both_counterexample:
  "is_ConversationMessage content_and_stop
   \<and> is_user_content content_and_stop
   \<and> is_user_stop content_and_stop
   \<and> shapes_matched content_and_stop = 2
   \<and> content_and_stop ''content'' = Some (JStr ''bye'')
   \<and> content_and_stop ''stopTokenReturned'' = Some (JBool True)"
  by (simp add: content_and_stop_def is_ConversationMessage_def
      is_AssistantConversationMessage_def is_UserConversationMessage_def is_user_content_def
      is_user_stop_def shapes_matched_def)

text \<open>
  C4, amended. Every value of type \<^verbatim>\<open>ConversationMessage\<close> matches at least one of
  the three shapes: role "assistant" with a content string, role "user" with a content
  string, role "user" with \<^verbatim>\<open>stopTokenReturned: true\<close>. The assistant shape excludes
  the two others, and a value that lacks \<^verbatim>\<open>content\<close> or lacks
  \<^verbatim>\<open>stopTokenReturned\<close> matches exactly one shape. The values that match more than
  one are the user messages that hold a content string and \<^verbatim>\<open>stopTokenReturned: true\<close>
  at once, which the type admits.
\<close>

theorem ConversationMessage_shapes:
  assumes "is_ConversationMessage v"
  shows "1 \<le> shapes_matched v
       \<and> (is_AssistantConversationMessage v \<longrightarrow> shapes_matched v = 1)
       \<and> (v ''content'' = None \<or> v ''stopTokenReturned'' = None \<longrightarrow> shapes_matched v = 1)
       \<and> (1 < shapes_matched v) =
           (v ''role'' = Some (JStr ''user'') \<and> is_string (v ''content'')
            \<and> v ''stopTokenReturned'' = Some (JBool True))"
  using assms
  by (auto simp add: is_ConversationMessage_def is_AssistantConversationMessage_def
      is_UserConversationMessage_def is_user_content_def is_user_stop_def shapes_matched_def
      is_string_iff)

theorem ConversationMessage_shapes_witness:
  "is_ConversationMessage [''role'' \<mapsto> JStr ''user'', ''stopTokenReturned'' \<mapsto> JBool True]
   \<and> shapes_matched [''role'' \<mapsto> JStr ''user'', ''stopTokenReturned'' \<mapsto> JBool True] = 1"
proof -
  let ?v = "[''role'' \<mapsto> JStr ''user'', ''stopTokenReturned'' \<mapsto> JBool True]"
  have t: "is_ConversationMessage ?v"
    by (simp add: is_ConversationMessage_def is_UserConversationMessage_def is_user_stop_def)
  have c: "?v ''content'' = None"
    by simp
  from ConversationMessage_shapes [OF t] c have "shapes_matched ?v = 1"
    by blast
  with t show ?thesis
    by simp
qed

section \<open>Properties of the Jest subprocess helper\<close>

lemma await_return:
  "(case p of Fulfilled result \<Rightarrow> Fulfilled result | Rejected e \<Rightarrow> Rejected e | Pending \<Rightarrow> Pending)
     = p"
  by (cases p) simp_all

lemma execa_options_override:
  "execaOptions k = Some v \<Longrightarrow> execa_options execaOptions k = Some v"
  by (simp add: execa_options_def map_add_def)

lemma execa_options_default:
  "execaOptions k = None \<Longrightarrow> execa_options execaOptions k = execa_defaults k"
  by (simp add: execa_options_def map_add_def)

lemma execaOptions_binding_other:
  "k \<noteq> ''args'' \<Longrightarrow> execaOptions_binding options k = options k"
  by (simp add: execaOptions_binding_def restrict_map_def)

lemma execaOptions_binding_args: "execaOptions_binding options ''args'' = None"
  by (simp add: execaOptions_binding_def restrict_map_def)

text \<open>
  C7. Whenever \<^verbatim>\<open>runJestSimulation\<close> reaches the process invoker (jest resolves to
  \<open>jestBin\<close> and the \<^verbatim>\<open>args\<close> option spreads to \<open>args\<close>), the invoker is called
  on \<^verbatim>\<open>node\<close> with the argument list \<open>jestBin, testFile, --no-color\<close> followed by
  \<open>args\<close>: the flag \<^verbatim>\<open>--no-color\<close> stands immediately after the test file and
  before every caller-supplied argument.
\<close>

theorem runJestSimulation_no_color:
  assumes "require_resolve env ''jest/bin/jest'' = Inr jestBin"
    and "spread_iterable (args_binding options) = Inr args"
  shows "\<exists>argv. runJestSimulation env testFile options =
             execa env ''node'' argv (execa_options (execaOptions_binding options))
           \<and> argv = jestBin # testFile # ''--no-color'' # args
           \<and> argv ! 1 = testFile \<and> argv ! 2 = ''--no-color'' \<and> drop 3 argv = args"
  using assms
  by (simp add: runJestSimulation_def jest_argv_def await_return)

theorem runJestSimulation_no_color_witness:
  "runJestSimulation \<lparr>require_resolve = jest_installed, execa = recording_execa\<rparr>
       ''a.test.ts'' [''args'' \<mapsto> JArr [''--ci'', ''--verbose'']]
     = Fulfilled (''node'',
         [''/node_modules/jest/bin/jest.js'', ''a.test.ts'', ''--no-color'', ''--ci'', ''--verbose''],
         [''reject'' \<mapsto> JBool False, ''stdout'' \<mapsto> JStr ''pipe'', ''stderr'' \<mapsto> JStr ''pipe''])"
proof -
  let ?env = "\<lparr>require_resolve = jest_installed, execa = recording_execa\<rparr>"
  let ?options = "[''args'' \<mapsto> JArr [''--ci'', ''--verbose'']]"
  have r: "require_resolve ?env ''jest/bin/jest'' = Inr ''/node_modules/jest/bin/jest.js''"
    by (simp add: jest_installed_def)
  have s: "spread_iterable (args_binding ?options) = Inr [''--ci'', ''--verbose'']"
    by (simp add: args_binding_def)
  have o: "execa_options (execaOptions_binding ?options)
             = [''reject'' \<mapsto> JBool False, ''stdout'' \<mapsto> JStr ''pipe'', ''stderr'' \<mapsto> JStr ''pipe'']"
    by (rule ext) (simp add: execa_options_def execa_defaults_def execaOptions_binding_def
        restrict_map_def map_add_def)
  from runJestSimulation_no_color [OF r s, of "''a.test.ts''"] o
  show ?thesis by (auto simp add: recording_execa_def)
qed


text \<open>
  C9. Whenever \<^verbatim>\<open>runJestSimulation\<close> reaches the process invoker, the options it
  hands over hold every property of \<open>options\<close> other than \<^verbatim>\<open>args\<close> with the caller's
  value, also where the caller sets \<^verbatim>\<open>reject\<close>, \<^verbatim>\<open>stdout\<close> or \<^verbatim>\<open>stderr\<close>;
  a property the caller does not set has its default, if it has one; \<^verbatim>\<open>args\<close> is not
  among the options handed over; and the array under \<^verbatim>\<open>args\<close> (nothing when the
  property is absent) is the tail of the argument list.
\<close>

theorem runJestSimulation_options:
  assumes "require_resolve env ''jest/bin/jest'' = Inr jestBin"
    and "spread_iterable (args_binding options) = Inr args"
  shows "\<exists>argv opts. runJestSimulation env testFile options = execa env ''node'' argv opts
           \<and> opts = execa_options (execaOptions_binding options)
           \<and> (\<forall>k v. k \<noteq> ''args'' \<and> options k = Some v \<longrightarrow> opts k = Some v)
           \<and> (\<forall>k. k \<noteq> ''args'' \<and> options k = None \<longrightarrow> opts k = execa_defaults k)
           \<and> opts ''args'' = None
           \<and> argv = [jestBin, testFile, ''--no-color''] @ args
           \<and> (\<forall>xs. options ''args'' = Some (JArr xs) \<longrightarrow> args = xs)
           \<and> (options ''args'' = None \<longrightarrow> args = [])"
proof -
  let ?opts = "execa_options (execaOptions_binding options)"
  have call: "runJestSimulation env testFile options
                = execa env ''node'' ([jestBin, testFile, ''--no-color''] @ args) ?opts"
    using assms by (simp add: runJestSimulation_def jest_argv_def await_return)
  have set: "\<forall>k v. k \<noteq> ''args'' \<and> options k = Some v \<longrightarrow> ?opts k = Some v"
    by (simp add: execa_options_override execaOptions_binding_other)
  have unset: "\<forall>k. k \<noteq> ''args'' \<and> options k = None \<longrightarrow> ?opts k = execa_defaults k"
    by (simp add: execa_options_default execaOptions_binding_other)
  have no_args: "?opts ''args'' = None"
    by (simp add: execa_options_default execaOptions_binding_args execa_defaults_def)
  have given: "\<forall>xs. options ''args'' = Some (JArr xs) \<longrightarrow> args = xs"
    using assms(2) by (auto simp add: args_binding_def)
  have absent: "options ''args'' = None \<longrightarrow> args = []"
    using assms(2) by (auto simp add: args_binding_def)
  from call set unset no_args given absent show ?thesis
    by simp
qed

theorem runJestSimulation_options_witness:
  "runJestSimulation \<lparr>require_resolve = jest_installed, execa = recording_execa\<rparr>
       ''a.test.ts''
       [''args'' \<mapsto> JArr [''--ci''], ''reject'' \<mapsto> JBool True, ''cwd'' \<mapsto> JStr ''/tmp'']
     = Fulfilled (''node'',
         [''/node_modules/jest/bin/jest.js'', ''a.test.ts'', ''--no-color'', ''--ci''],
         [''reject'' \<mapsto> JBool True, ''stdout'' \<mapsto> JStr ''pipe'', ''stderr'' \<mapsto> JStr ''pipe'',
          ''cwd'' \<mapsto> JStr ''/tmp''])"
proof -
  let ?env = "\<lparr>require_resolve = jest_installed, execa = recording_execa\<rparr>"
  let ?options =
    "[''args'' \<mapsto> JArr [''--ci''], ''reject'' \<mapsto> JBool True, ''cwd'' \<mapsto> JStr ''/tmp'']"
  have r: "require_resolve ?env ''jest/bin/jest'' = Inr ''/node_modules/jest/bin/jest.js''"
    by (simp add: jest_installed_def)
  have s: "spread_iterable (args_binding ?options) = Inr [''--ci'']"
    by (simp add: args_binding_def)
  have o: "execa_options (execaOptions_binding ?options)
             = [''reject'' \<mapsto> JBool True, ''stdout'' \<mapsto> JStr ''pipe'', ''stderr'' \<mapsto> JStr ''pipe'',
                ''cwd'' \<mapsto> JStr ''/tmp'']"
    by (rule ext) (simp add: execa_options_def execa_defaults_def execaOptions_binding_def
        restrict_map_def map_add_def)
  from runJestSimulation_options [OF r s, of "''a.test.ts''"] o
  show ?thesis by (auto simp add: recording_execa_def)
qed




section \<open>Properties of the turn engine\<close>

text \<open>
  One turn of an agent that is driven by the deterministic generator and has kept the
  generator's count equal to its own turn counter.
\<close>

lemma runTurn_deterministic:
  assumes "phase a \<noteq> Terminal"
    and "generator a = DeterministicConversationGenerator script"
    and "generator_state a = turn a"
  shows "runTurn a =
    (let n = Suc (turn a); m = script n;
         a2 = a\<lparr>generator_state := n, turn := n, latest := m, phase := Running,
                events := events a @ [turnStart \<lparr>currentTurn = n, latestMessage = latest a\<rparr>,
                                      turnEnd \<lparr>currentTurn = n, latestMessage = m\<rparr>]\<rparr>
     in if m = User UserStopTokenReturned
        then (Fulfilled True, a2\<lparr>phase := Terminal, events := events a2 @ [conversationEnd ''stop-token'' n]\<rparr>)
        else if maxTurns a \<le> int n
        then (Fulfilled True, a2\<lparr>phase := Terminal, events := events a2 @ [conversationEnd ''max-turns'' n]\<rparr>)
        else (Fulfilled False, a2))"
  using assms
  by (simp add: runTurn_def Let_def emit_def DeterministicConversationGenerator_def)

lemma runAllTurns_loop_deterministic:
  assumes "phase a \<noteq> Terminal"
    and "generator a = DeterministicConversationGenerator script"
    and "generator_state a = turn a"
    and "latest a = message_after first script (turn a)"
    and "turn a < k"
    and "\<forall>i. turn a < i \<and> i < k \<longrightarrow> script i \<noteq> User UserStopTokenReturned"
    and "int k \<le> maxTurns a"
    and "script k = User UserStopTokenReturned \<or> int k = maxTurns a"
  shows "runAllTurns_loop a =
    (Fulfilled (),
     a\<lparr>generator_state := k, turn := k, latest := script k, phase := Terminal,
       events := events a @ concat (map (turn_events first script) [Suc (turn a)..<Suc k])
                   @ [conversationEnd (stop_reason script k) k]\<rparr>)"
  using assms
proof (induction "k - turn a" arbitrary: a)
  case 0
  then show ?case by simp
next
  case (Suc d)
  let ?n = "Suc (turn a)"
  show ?case
  proof (cases "?n = k")
    case True
    with Suc.prems show ?thesis
      by (subst runAllTurns_loop.simps)
        (auto simp add: runTurn_deterministic Let_def stop_reason_def turn_events_def message_after_def)
  next
    case False
    with Suc.prems have lt: "?n < k" by simp
    with Suc.prems have nostop: "script ?n \<noteq> User UserStopTokenReturned" by simp
    from lt Suc.prems have notmax: "\<not> maxTurns a \<le> int ?n" by simp
    define a2 where "a2 = a\<lparr>generator_state := ?n, turn := ?n, latest := script ?n, phase := Running,
                events := events a @ [turnStart \<lparr>currentTurn = ?n, latestMessage = latest a\<rparr>,
                                      turnEnd \<lparr>currentTurn = ?n, latestMessage = script ?n\<rparr>]\<rparr>"
    have step: "runTurn a = (Fulfilled False, a2)"
      using Suc.prems(1-3) nostop notmax
      by (simp add: runTurn_deterministic Let_def a2_def)
    have ih: "runAllTurns_loop a2 =
      (Fulfilled (),
       a2\<lparr>generator_state := k, turn := k, latest := script k, phase := Terminal,
         events := events a2 @ concat (map (turn_events first script) [Suc (turn a2)..<Suc k])
                   @ [conversationEnd (stop_reason script k) k]\<rparr>)"
    proof (rule Suc.hyps(1))
      show "d = k - turn a2" using Suc.hyps(2) by (simp add: a2_def)
      show "phase a2 \<noteq> Terminal" by (simp add: a2_def)
      show "generator a2 = DeterministicConversationGenerator script"
        using Suc.prems(2) by (simp add: a2_def)
      show "generator_state a2 = turn a2" by (simp add: a2_def)
      show "latest a2 = message_after first script (turn a2)"
        by (simp add: a2_def message_after_def)
      show "turn a2 < k" using lt by (simp add: a2_def)
      show "\<forall>i. turn a2 < i \<and> i < k \<longrightarrow> script i \<noteq> User UserStopTokenReturned"
        using Suc.prems(6) by (simp add: a2_def)
      show "int k \<le> maxTurns a2" using Suc.prems(7) by (simp add: a2_def)
      show "script k = User UserStopTokenReturned \<or> int k = maxTurns a2"
        using Suc.prems(8) by (simp add: a2_def)
    qed
    have ev: "[Suc (turn a)..<Suc k] = ?n # [Suc ?n..<Suc k]"
      using lt by (simp add: upt_conv_Cons)
    have e1: "events a2 = events a @ turn_events first script ?n"
      using Suc.prems(4) by (simp add: a2_def turn_events_def message_after_def)
    have e2: "turn a2 = ?n"
      by (simp add: a2_def)
    have evs: "events a2 @ concat (map (turn_events first script) [Suc (turn a2)..<Suc k])
                 @ [conversationEnd (stop_reason script k) k]
             = events a @ concat (map (turn_events first script) [Suc (turn a)..<Suc k])
                 @ [conversationEnd (stop_reason script k) k]"
      by (simp only: e1 e2 ev list.map concat.simps append_assoc)
    have rec: "a2\<lparr>generator_state := k, turn := k, latest := script k, phase := Terminal,
                  events := E\<rparr>
             = a\<lparr>generator_state := k, turn := k, latest := script k, phase := Terminal,
                  events := E\<rparr>" for E
      by (simp add: a2_def)
    have "runAllTurns_loop a = runAllTurns_loop a2"
      by (subst runAllTurns_loop.simps) (simp add: step)
    also from ih have "runAllTurns_loop a2 =
      (Fulfilled (),
       a\<lparr>generator_state := k, turn := k, latest := script k, phase := Terminal,
         events := events a @ concat (map (turn_events first script) [Suc (turn a)..<Suc k])
                   @ [conversationEnd (stop_reason script k) k]\<rparr>)"
      by (simp only: rec evs)
    finally show ?thesis .
  qed
qed

lemma turnStarts_append: "turnStarts (xs @ ys) = turnStarts xs @ turnStarts ys"
  by (induction xs rule: turnStarts.induct) simp_all

lemma turnEnds_append: "turnEnds (xs @ ys) = turnEnds xs @ turnEnds ys"
  by (induction xs rule: turnEnds.induct) simp_all

lemma conversationEnds_append:
  "conversationEnds (xs @ ys) = conversationEnds xs @ conversationEnds ys"
  by (induction xs rule: conversationEnds.induct) simp_all

lemma turnStarts_turns:
  "turnStarts (concat (map (turn_events first script) is)) = is"
  by (induction "is") (simp_all add: turnStarts_append turn_events_def)

lemma turnEnds_turns:
  "turnEnds (concat (map (turn_events first script) is)) = is"
  by (induction "is") (simp_all add: turnEnds_append turn_events_def)

lemma conversationEnds_turns:
  "conversationEnds (concat (map (turn_events first script) is)) = []"
  by (induction "is") (simp_all add: conversationEnds_append turn_events_def)

lemma turnStarts_run_events: "turnStarts (run_events first script n reason) = [1..<Suc n]"
  unfolding run_events_def turnStarts_append turnStarts_turns by simp

lemma turnEnds_run_events: "turnEnds (run_events first script n reason) = [1..<Suc n]"
  unfolding run_events_def turnEnds_append turnEnds_turns by simp

lemma conversationEnds_run_events:
  "conversationEnds (run_events first script n reason) = [(reason, n)]"
  unfolding run_events_def conversationEnds_append conversationEnds_turns by simp

lemma last_run_events: "last (run_events first script n reason) = conversationEnd reason n"
  by (simp add: run_events_def)

text \<open>
  A whole run from a fresh runner: when turn \<open>k\<close> is the first to meet a terminal
  condition, the run fulfils there, having emitted exactly \<open>run_events\<close>.
\<close>

lemma runAllTurns_fresh:
  assumes "0 < k"
    and "int k \<le> args_maxTurns args"
    and "args_generator args = DeterministicConversationGenerator script"
    and "\<forall>i. 0 < i \<and> i < k \<longrightarrow> script i \<noteq> User UserStopTokenReturned"
    and "script k = User UserStopTokenReturned \<or> int k = args_maxTurns args"
  shows "\<exists>r r'. newSimulationAgentRunner args = Inr r
           \<and> runAllTurns r = (Fulfilled (), r')
           \<and> turn (owned_agent r') = k
           \<and> phase (owned_agent r') = Terminal
           \<and> events (owned_agent r')
               = run_events (args_firstInput args) script k (stop_reason script k)"
proof -
  define a where "a =
    \<lparr>generator = args_generator args,
     generator_state = initialize (args_generator args) None (args_generator_state args),
     maxTurns = args_maxTurns args, turn = 0, latest = args_firstInput args,
     phase = Idle, events = []\<rparr>"
  have new: "newSimulationAgentRunner args = Inr \<lparr>owned_agent = a\<rparr>"
    using assms(1,2) by (simp add: newSimulationAgentRunner_def a_def)
  have "runAllTurns_loop a =
    (Fulfilled (),
     a\<lparr>generator_state := k, turn := k, latest := script k, phase := Terminal,
       events := events a @ concat (map (turn_events (args_firstInput args) script)
                                      [Suc (turn a)..<Suc k])
                   @ [conversationEnd (stop_reason script k) k]\<rparr>)"
  proof (rule runAllTurns_loop_deterministic)
    show "phase a \<noteq> Terminal" by (simp add: a_def)
    show "generator a = DeterministicConversationGenerator script"
      using assms(3) by (simp add: a_def)
    show "generator_state a = turn a"
      using assms(3) by (simp add: a_def DeterministicConversationGenerator_def)
    show "latest a = message_after (args_firstInput args) script (turn a)"
      by (simp add: a_def message_after_def)
    show "turn a < k" using assms(1) by (simp add: a_def)
    show "\<forall>i. turn a < i \<and> i < k \<longrightarrow> script i \<noteq> User UserStopTokenReturned"
      using assms(4) by (simp add: a_def)
    show "int k \<le> maxTurns a" using assms(2) by (simp add: a_def)
    show "script k = User UserStopTokenReturned \<or> int k = maxTurns a"
      using assms(5) by (simp add: a_def)
  qed
  then have "runAllTurns \<lparr>owned_agent = a\<rparr> =
    (Fulfilled (),
     \<lparr>owned_agent = a\<lparr>generator_state := k, turn := k, latest := script k, phase := Terminal,
       events := run_events (args_firstInput args) script k (stop_reason script k)\<rparr>\<rparr>)"
    by (simp add: runAllTurns_def run_events_def a_def)
  with new show ?thesis
    by simp
qed

text \<open>
  C2. For every \<open>n \<ge> 1\<close>, a runner built with \<open>maxTurns = n\<close> and a deterministic
  generator that never returns the stop sentinel: \<open>runAllTurns\<close> fulfils with the agent
  terminal at turn \<open>n\<close>, after a \<open>turnStart\<close> and a \<open>turnEnd\<close> for each of the turns
  \<open>1, ..., n\<close> and no other, and its single \<open>conversationEnd\<close> event, the last event of
  the run, carries the reason "max-turns" and the turn \<open>n\<close>.
\<close>

theorem runAllTurns_max_turns:
  assumes "1 \<le> n"
    and "\<forall>i. script i \<noteq> User UserStopTokenReturned"
    and "args_generator args = DeterministicConversationGenerator script"
    and "args_maxTurns args = int n"
  shows "\<exists>r r'. newSimulationAgentRunner args = Inr r
           \<and> runAllTurns r = (Fulfilled (), r')
           \<and> turn (owned_agent r') = n
           \<and> phase (owned_agent r') = Terminal
           \<and> turnStarts (events (owned_agent r')) = [1..<Suc n]
           \<and> turnEnds (events (owned_agent r')) = [1..<Suc n]
           \<and> conversationEnds (events (owned_agent r')) = [(''max-turns'', n)]
           \<and> last (events (owned_agent r')) = conversationEnd ''max-turns'' n"
proof -
  have reason: "stop_reason script n = ''max-turns''"
    using assms(2) by (simp add: stop_reason_def)
  have "\<exists>r r'. newSimulationAgentRunner args = Inr r
           \<and> runAllTurns r = (Fulfilled (), r')
           \<and> turn (owned_agent r') = n
           \<and> phase (owned_agent r') = Terminal
           \<and> events (owned_agent r')
               = run_events (args_firstInput args) script n (stop_reason script n)"
    using assms by (intro runAllTurns_fresh) simp_all
  then show ?thesis
    unfolding reason
    by (auto simp add: turnStarts_run_events turnEnds_run_events
        conversationEnds_run_events last_run_events)
qed

theorem runAllTurns_max_turns_witness:
  "\<exists>r r'. newSimulationAgentRunner (scripted_args content_script 3) = Inr r
     \<and> runAllTurns r = (Fulfilled (), r')
     \<and> turn (owned_agent r') = 3
     \<and> phase (owned_agent r') = Terminal
     \<and> turnStarts (events (owned_agent r')) = [1, 2, 3]
     \<and> turnEnds (events (owned_agent r')) = [1, 2, 3]
     \<and> conversationEnds (events (owned_agent r')) = [(''max-turns'', 3)]
     \<and> last (events (owned_agent r')) = conversationEnd ''max-turns'' 3"
proof -
  have n: "(1::nat) \<le> 3"
    by simp
  have s: "\<forall>i. content_script i \<noteq> User UserStopTokenReturned"
    by (simp add: content_script_def)
  have g: "args_generator (scripted_args content_script 3)
             = DeterministicConversationGenerator content_script"
    by (simp add: scripted_args_def)
  have m: "args_maxTurns (scripted_args content_script 3) = int 3"
    by (simp add: scripted_args_def)
  have u: "[1..<Suc 3] = [1, 2, 3]"
    by (simp add: upt_rec)
  from runAllTurns_max_turns [OF n s g m] show ?thesis
    unfolding u by simp
qed

text \<open>
  C3. A runner whose deterministic generator returns the stop sentinel on turn \<open>k\<close>,
  with \<open>1 \<le> k \<le> maxTurns\<close> (the turns before \<open>k\<close> return other messages: turn \<open>k\<close>
  is the turn on which the sentinel is returned): \<open>runAllTurns\<close> fulfils with the agent
  terminal at turn \<open>k\<close>, the single \<open>conversationEnd\<close> event carries the reason
  "stop-token" and the turn \<open>k\<close>, the \<open>turnStart\<close> events are those of the turns
  \<open>1, ..., k\<close>, and no \<open>turnStart\<close> event for turn \<open>k + 1\<close> was emitted.
\<close>

theorem runAllTurns_stop_token:
  assumes "1 \<le> k"
    and "int k \<le> args_maxTurns args"
    and "args_generator args = DeterministicConversationGenerator script"
    and "script k = User UserStopTokenReturned"
    and "\<forall>i. 1 \<le> i \<and> i < k \<longrightarrow> script i \<noteq> User UserStopTokenReturned"
  shows "\<exists>r r'. newSimulationAgentRunner args = Inr r
           \<and> runAllTurns r = (Fulfilled (), r')
           \<and> turn (owned_agent r') = k
           \<and> phase (owned_agent r') = Terminal
           \<and> conversationEnds (events (owned_agent r')) = [(''stop-token'', k)]
           \<and> last (events (owned_agent r')) = conversationEnd ''stop-token'' k
           \<and> turnStarts (events (owned_agent r')) = [1..<Suc k]
           \<and> Suc k \<notin> set (turnStarts (events (owned_agent r')))"
proof -
  have reason: "stop_reason script k = ''stop-token''"
    using assms(4) by (simp add: stop_reason_def)
  have "\<exists>r r'. newSimulationAgentRunner args = Inr r
           \<and> runAllTurns r = (Fulfilled (), r')
           \<and> turn (owned_agent r') = k
           \<and> phase (owned_agent r') = Terminal
           \<and> events (owned_agent r')
               = run_events (args_firstInput args) script k (stop_reason script k)"
    using assms by (intro runAllTurns_fresh) simp_all
  then show ?thesis
    unfolding reason
    by (auto simp add: turnStarts_run_events conversationEnds_run_events last_run_events)
qed

theorem runAllTurns_stop_token_witness:
  "\<exists>r r'. newSimulationAgentRunner (scripted_args stop_at_2_script 5) = Inr r
     \<and> runAllTurns r = (Fulfilled (), r')
     \<and> turn (owned_agent r') = 2
     \<and> phase (owned_agent r') = Terminal
     \<and> conversationEnds (events (owned_agent r')) = [(''stop-token'', 2)]
     \<and> last (events (owned_agent r')) = conversationEnd ''stop-token'' 2
     \<and> turnStarts (events (owned_agent r')) = [1, 2]
     \<and> 3 \<notin> set (turnStarts (events (owned_agent r')))"
proof -
  have k: "(1::nat) \<le> 2"
    by simp
  have m: "int 2 \<le> args_maxTurns (scripted_args stop_at_2_script 5)"
    by (simp add: scripted_args_def)
  have g: "args_generator (scripted_args stop_at_2_script 5)
             = DeterministicConversationGenerator stop_at_2_script"
    by (simp add: scripted_args_def)
  have s: "stop_at_2_script 2 = User UserStopTokenReturned"
    by (simp add: stop_at_2_script_def)
  have b: "\<forall>i. 1 \<le> i \<and> i < 2 \<longrightarrow> stop_at_2_script i \<noteq> User UserStopTokenReturned"
    by (simp add: stop_at_2_script_def)
  have u: "[1..<Suc 2] = [1, 2]"
    by (simp add: upt_rec)
  from runAllTurns_stop_token [OF k m g s b] show ?thesis
    unfolding u by simp
qed

section \<open>Properties of the Jest binding\<close>

lemma simulationTest_registers:
  "last (simulationTest R name agentArgs fn tests) = (name, simulationTest_body R agentArgs fn)"
  by (simp add: simulationTest_def)

lemma leaves_arrayD:
  "leaves_array l f \<Longrightarrow> f s = (res, s') \<Longrightarrow> array_at s' l = array_at s l"
  unfolding leaves_array_def by (metis snd_conv)

lemma array_at_new_array:
  "array_at s0 (fst (new_array s0)) = None"
  "array_at (snd (new_array s0)) (fst (new_array s0)) = Some []"
  by (simp_all add: new_array_def array_at_def)

text \<open>The run of the body on the small runner class and the listening callback.\<close>

lemma run_listening:
  "simulationTest_body counting_runner 3 listening_fn empty_store =
    (Fulfilled (),
     \<lparr>trace =
       [\<lparr>called = NewSimulationAgentRunner 3,
           before = \<lparr>arrays = [[]], others = 0\<rparr>, outcome = Runner 1,
           after = \<lparr>arrays = [[]], others = 0\<rparr>\<rparr>,
        \<lparr>called = GetAgent 1, before = \<lparr>arrays = [[]], others = 0\<rparr>,
           outcome = Agent 2, after = \<lparr>arrays = [[]], others = 0\<rparr>\<rparr>,
        \<lparr>called = SetupFn \<lparr>agent = 2, logs = 0\<rparr>,
           before = \<lparr>arrays = [[]], others = 0\<rparr>,
           outcome = Awaited (Fulfilled ()),
           after = \<lparr>arrays = [[''ready'']], others = 0\<rparr>\<rparr>,
        \<lparr>called = RunAllTurns 1,
           before = \<lparr>arrays = [[''ready'']], others = 0\<rparr>,
           outcome = Awaited (Fulfilled ()),
           after = \<lparr>arrays = [[''ready'', ''Turn 1'', ''Turn 2'', ''Turn 3'']], others = 3\<rparr>\<rparr>],
      store = \<lparr>arrays = [[''ready'', ''Turn 1'', ''Turn 2'', ''Turn 3'']], others = 3\<rparr>\<rparr>)"
  by code_simp

text \<open>
  C1. In every run of the body of a test created by \<^verbatim>\<open>simulationTest\<close>, with any
  runner class, any callback and any starting store, the calls made are an initial part
  of the sequence: the constructor on the given arguments, \<^verbatim>\<open>getAgent()\<close> on the
  runner constructed, the setup callback on a context holding the agent that
  \<^verbatim>\<open>getAgent()\<close> returned and the new array \<^verbatim>\<open>logs\<close>, and \<^verbatim>\<open>runAllTurns()\<close>
  on the same runner. The constructor is always called; each later call is made only
  after the one before it has completed, and is made whenever that one completed. So
  \<^verbatim>\<open>runAllTurns()\<close> is the fourth call or is not made, the agent is obtained before
  it, and it is made only once the awaited outcome of the callback is fulfilled.
\<close>

theorem simulationTest_setup_before_turns:
  "\<exists>r a. prefix (map called (test_trace R agentArgs fn s0))
             [NewSimulationAgentRunner agentArgs, GetAgent r,
              SetupFn \<lparr>agent = a, logs = length (arrays s0)\<rparr>, RunAllTurns r]
     \<and> test_trace R agentArgs fn s0 \<noteq> []
     \<and> (1 < length (test_trace R agentArgs fn s0)
          \<longrightarrow> outcome (test_trace R agentArgs fn s0 ! 0) = Runner r)
     \<and> (2 < length (test_trace R agentArgs fn s0)
          \<longrightarrow> outcome (test_trace R agentArgs fn s0 ! 1) = Agent a)
     \<and> (3 < length (test_trace R agentArgs fn s0)
          \<longrightarrow> outcome (test_trace R agentArgs fn s0 ! 2) = Awaited (Fulfilled ()))
     \<and> (\<forall>i. Suc i < length (test_trace R agentArgs fn s0)
          \<longrightarrow> completed (outcome (test_trace R agentArgs fn s0 ! i)))
     \<and> (length (test_trace R agentArgs fn s0) < 4
          \<longrightarrow> \<not> completed (outcome (last (test_trace R agentArgs fn s0))))"
  unfolding test_trace_def simulationTest_body_def invoke_def new_array_def Let_def
  by (auto split: prod.splits sum.splits promise.splits
      simp add: observe_runner_def observe_agent_def observe_awaited_def nth_Cons' less_Suc_eq)

theorem simulationTest_setup_before_turns_witness:
  "length (test_trace counting_runner 3 listening_fn empty_store) = 4
   \<and> (\<exists>r a. map called (test_trace counting_runner 3 listening_fn empty_store)
               = [NewSimulationAgentRunner 3, GetAgent r,
                  SetupFn \<lparr>agent = a, logs = 0\<rparr>, RunAllTurns r]
         \<and> outcome (test_trace counting_runner 3 listening_fn empty_store ! 0) = Runner r
         \<and> outcome (test_trace counting_runner 3 listening_fn empty_store ! 1) = Agent a
         \<and> outcome (test_trace counting_runner 3 listening_fn empty_store ! 2)
             = Awaited (Fulfilled ()))"
proof -
  let ?tr = "test_trace counting_runner 3 listening_fn empty_store"
  have len: "length ?tr = 4"
    by (simp add: test_trace_def run_listening)
  have full: "xs = ys" if "prefix xs ys" and "length xs = length ys" for xs ys :: "'z list"
    using that by (auto simp add: prefix_def)
  have e: "length (arrays empty_store) = 0"
    by (simp add: empty_store_def)
  from simulationTest_setup_before_turns [of counting_runner 3 listening_fn empty_store]
  obtain r a where p: "prefix (map called ?tr)
             [NewSimulationAgentRunner 3, GetAgent r,
              SetupFn \<lparr>agent = a, logs = 0\<rparr>, RunAllTurns r]"
    and o0: "1 < length ?tr \<longrightarrow> outcome (?tr ! 0) = Runner r"
    and o1: "2 < length ?tr \<longrightarrow> outcome (?tr ! 1) = Agent a"
    and o2: "3 < length ?tr \<longrightarrow> outcome (?tr ! 2) = Awaited (Fulfilled ())"
    unfolding e by blast
  from p len have "map called ?tr
             = [NewSimulationAgentRunner 3, GetAgent r,
                SetupFn \<lparr>agent = a, logs = 0\<rparr>, RunAllTurns r]"
    by (intro full) simp_all
  with len o0 o1 o2 show ?thesis
    by auto
qed

text \<open>
  C8. When the constructor and \<^verbatim>\<open>getAgent()\<close> have returned and the setup callback
  throws \<open>e\<close> or returns a promise that rejects with \<open>e\<close>, the promise of the test body
  rejects with \<open>e\<close>; the calls made are the constructor, \<^verbatim>\<open>getAgent()\<close> and the
  callback, so \<^verbatim>\<open>runAllTurns()\<close> is not called, and the store is left as the callback
  left it.
\<close>

theorem simulationTest_setup_rejects:
  assumes "class_new R agentArgs (snd (new_array s0)) = (Inr runner, s2)"
    and "class_getAgent R runner s2 = (Inr a, s3)"
    and "fn \<lparr>agent = a, logs = fst (new_array s0)\<rparr> s3 = (setup, s4)"
    and "setup = Throws e \<or> setup = ReturnsPromise (Rejected e)"
  shows "test_promise R agentArgs fn s0 = Rejected e
       \<and> map called (test_trace R agentArgs fn s0)
           = [NewSimulationAgentRunner agentArgs, GetAgent runner,
              SetupFn \<lparr>agent = a, logs = fst (new_array s0)\<rparr>]
       \<and> (\<forall>c \<in> set (map called (test_trace R agentArgs fn s0)). \<not> is_RunAllTurns c)
       \<and> test_store R agentArgs fn s0 = s4"
  using assms
  unfolding test_trace_def test_promise_def test_store_def simulationTest_body_def invoke_def
    Let_def
  by (auto simp add: new_array_def)

theorem simulationTest_setup_rejects_witness:
  "test_promise counting_runner 3 failing_fn empty_store = Rejected ''setup failed''
   \<and> map called (test_trace counting_runner 3 failing_fn empty_store)
       = [NewSimulationAgentRunner 3, GetAgent 1, SetupFn \<lparr>agent = 2, logs = 0\<rparr>]
   \<and> others (test_store counting_runner 3 failing_fn empty_store) = 0"
proof -
  let ?s1 = "\<lparr>arrays = [[]], others = 0\<rparr> :: nat store"
  have n: "class_new counting_runner 3 (snd (new_array empty_store)) = (Inr 1, ?s1)"
    by (simp add: counting_runner_def new_array_def empty_store_def)
  have g: "class_getAgent counting_runner 1 ?s1 = (Inr 2, ?s1)"
    by (simp add: counting_runner_def)
  have f: "failing_fn \<lparr>agent = 2, logs = fst (new_array empty_store)\<rparr> ?s1
             = (ReturnsPromise (Rejected ''setup failed''), ?s1)"
    by (simp add: failing_fn_def)
  have r: "ReturnsPromise (Rejected ''setup failed'') = Throws ''setup failed''
           \<or> ReturnsPromise (Rejected ''setup failed'')
               = (ReturnsPromise (Rejected ''setup failed'') :: string returned)"
    by simp
  from simulationTest_setup_rejects [where fn = failing_fn, OF n g f r] show ?thesis
    by (simp add: new_array_def empty_store_def)
qed

text \<open>
  C10. In every run of the body: \<^verbatim>\<open>logs\<close> is an array at an address where the
  starting store has none, so it is shared with no array of an earlier run; the
  constructor is the first call, on the given arguments, and is called once; the
  constructor starts from a store where \<^verbatim>\<open>logs\<close> is empty; and the stores of the
  calls are linked from the store with the new array to the final store, so that every
  change of the store after the creation of \<^verbatim>\<open>logs\<close> is made inside a call of a
  collaborator, none by the body. When the constructor and \<^verbatim>\<open>getAgent()\<close> leave the
  array alone (they are not handed it), the setup callback finds \<^verbatim>\<open>logs\<close> empty;
  and when the callback and \<^verbatim>\<open>runAllTurns()\<close> leave it alone too, it is empty at
  the end.
\<close>

theorem simulationTest_logs_frame:
  "array_at s0 (fst (new_array s0)) = None
   \<and> test_trace R agentArgs fn s0 \<noteq> []
   \<and> called (hd (test_trace R agentArgs fn s0)) = NewSimulationAgentRunner agentArgs
   \<and> length (filter is_NewSimulationAgentRunner (map called (test_trace R agentArgs fn s0))) = 1
   \<and> array_at (before (hd (test_trace R agentArgs fn s0))) (fst (new_array s0)) = Some []
   \<and> linked (snd (new_array s0)) (test_trace R agentArgs fn s0) (test_store R agentArgs fn s0)
   \<and> (leaves_array (fst (new_array s0)) (class_new R agentArgs)
        \<and> (\<forall>r. leaves_array (fst (new_array s0)) (class_getAgent R r))
      \<longrightarrow> (\<forall>e \<in> set (test_trace R agentArgs fn s0). \<forall>context. called e = SetupFn context
             \<longrightarrow> logs context = fst (new_array s0)
                 \<and> array_at (before e) (logs context) = Some []))
   \<and> (leaves_array (fst (new_array s0)) (class_new R agentArgs)
        \<and> (\<forall>r. leaves_array (fst (new_array s0)) (class_getAgent R r))
        \<and> (\<forall>context. leaves_array (fst (new_array s0)) (fn context))
        \<and> (\<forall>r. leaves_array (fst (new_array s0)) (class_runAllTurns R r))
      \<longrightarrow> array_at (test_store R agentArgs fn s0) (fst (new_array s0)) = Some [])"
proof -
  let ?l = "fst (new_array s0)"
  let ?tr = "test_trace R agentArgs fn s0"
  have unconditional:
    "array_at s0 ?l = None \<and> ?tr \<noteq> []
     \<and> called (hd ?tr) = NewSimulationAgentRunner agentArgs
     \<and> length (filter is_NewSimulationAgentRunner (map called ?tr)) = 1
     \<and> array_at (before (hd ?tr)) ?l = Some []
     \<and> linked (snd (new_array s0)) ?tr (test_store R agentArgs fn s0)"
    unfolding test_trace_def test_store_def simulationTest_body_def invoke_def Let_def
    by (auto split: prod.splits sum.splits promise.splits simp add: new_array_def array_at_def)
  obtain n1 s2 where new: "class_new R agentArgs (snd (new_array s0)) = (n1, s2)"
    by (cases "class_new R agentArgs (snd (new_array s0))")
  have at_setup: "\<forall>e \<in> set ?tr. \<forall>context. called e = SetupFn context
             \<longrightarrow> logs context = ?l \<and> array_at (before e) (logs context) = Some []"
    if n: "leaves_array ?l (class_new R agentArgs)"
      and g: "\<forall>r. leaves_array ?l (class_getAgent R r)"
  proof -
    have a2: "array_at s2 ?l = Some []"
      using leaves_arrayD [OF n new] by (simp add: array_at_new_array)
    have a3: "array_at s3 ?l = Some []" if "class_getAgent R r s2 = (res, s3)" for r res s3
      using leaves_arrayD [OF g [rule_format] that] a2 by simp
    show ?thesis
      using new a3
      unfolding test_trace_def simulationTest_body_def invoke_def Let_def
      by (auto split: prod.splits sum.splits promise.splits)
  qed
  have at_end: "array_at (test_store R agentArgs fn s0) ?l = Some []"
    if n: "leaves_array ?l (class_new R agentArgs)"
      and g: "\<forall>r. leaves_array ?l (class_getAgent R r)"
      and f: "\<forall>context. leaves_array ?l (fn context)"
      and t: "\<forall>r. leaves_array ?l (class_runAllTurns R r)"
  proof -
    have a2: "array_at s2 ?l = Some []"
      using leaves_arrayD [OF n new] by (simp add: array_at_new_array)
    have a3: "array_at s3 ?l = array_at s ?l" if "class_getAgent R r s = (res, s3)" for r res s s3
      using leaves_arrayD [OF g [rule_format] that] by simp
    have a4: "array_at s4 ?l = array_at s ?l" if "fn c s = (res, s4)" for c res s s4
      using leaves_arrayD [OF f [rule_format] that] by simp
    have a5: "array_at s5 ?l = array_at s ?l" if "class_runAllTurns R r s = (res, s5)" for r res s s5
      using leaves_arrayD [OF t [rule_format] that] by simp
    show ?thesis
      using new a2 a3 a4 a5
      unfolding test_store_def simulationTest_body_def invoke_def Let_def
      by (auto split: prod.splits sum.splits promise.splits)
  qed
  from unconditional at_setup at_end show ?thesis
    by blast
qed

theorem simulationTest_logs_frame_witness:
  "array_at empty_store 0 = None
   \<and> called (test_trace counting_runner 3 listening_fn empty_store ! 2)
       = SetupFn \<lparr>agent = 2, logs = 0\<rparr>
   \<and> array_at (before (test_trace counting_runner 3 listening_fn empty_store ! 2)) 0 = Some []
   \<and> array_at (test_store counting_runner 3 listening_fn empty_store) 0
       = Some [''ready'', ''Turn 1'', ''Turn 2'', ''Turn 3'']"
proof -
  let ?tr = "test_trace counting_runner 3 listening_fn empty_store"
  have l: "fst (new_array empty_store) = 0"
    by (simp add: new_array_def empty_store_def)
  have n: "leaves_array 0 (class_new counting_runner 3)"
    by (simp add: leaves_array_def counting_runner_def array_at_def)
  have g: "\<forall>r. leaves_array 0 (class_getAgent counting_runner r)"
    by (simp add: leaves_array_def counting_runner_def)
  have tr: "?tr ! 2 \<in> set ?tr \<and> called (?tr ! 2) = SetupFn \<lparr>agent = 2, logs = 0\<rparr>"
    by (simp add: test_trace_def run_listening)
  have final: "array_at (test_store counting_runner 3 listening_fn empty_store) 0
                 = Some [''ready'', ''Turn 1'', ''Turn 2'', ''Turn 3'']"
    by (simp add: test_store_def run_listening array_at_def)
  from simulationTest_logs_frame
         [where ?s0.0 = empty_store and R = counting_runner and agentArgs = 3
            and fn = listening_fn]
  have fresh: "array_at empty_store 0 = None"
    and found: "\<forall>e \<in> set ?tr. \<forall>c. called e = SetupFn c
                 \<longrightarrow> logs c = 0 \<and> array_at (before e) (logs c) = Some []"
    using n g unfolding l by blast+
  from found tr have "array_at (before (?tr ! 2)) 0 = Some []"
    by fastforce
  with fresh tr final show ?thesis
    by simp
qed

end
